theory Spec2Isabelle
  imports Main "HOL-Library.Sublist"
begin

section \<open>JavaScript values read by the component\<close>

text \<open>
  The chat component exists in two revisions: the one with the bounded summary retry
  (the file that declares \<^verbatim>\<open>MAX_SUMMARY_RETRIES\<close>) and the plain
  \<^verbatim>\<open>src/src/App.vue\<close>. Both are embedded; the functions of the first keep the
  source's names, those of \<^verbatim>\<open>src/src/App.vue\<close> carry the suffix \<open>_App\<close>.

  A value produced by \<^verbatim>\<open>JSON.parse\<close> or \<^verbatim>\<open>response.json()\<close> is a
  \<open>jsval\<close>. \<open>JUndefined\<close> is what reading a missing property gives; a parsed document
  never contains it. Numbers are the integral ones (a JSON number that is a safe
  integer), strings are lists of code units below 256. An object is the list of its
  own properties, each key once.
\<close>

datatype jsval =
    JUndefined
  | JNull
  | JBool bool
  | JNum int
  | JStr string
  | JArr "jsval list"
  | JObj "(string \<times> jsval) list"

text \<open>ToBoolean: \<^verbatim>\<open>undefined\<close>, \<^verbatim>\<open>null\<close>, \<^verbatim>\<open>false\<close>,
  \<^verbatim>\<open>0\<close> and the empty string are falsy, everything else is truthy.\<close>

fun truthy :: "jsval \<Rightarrow> bool" where
  "truthy JUndefined = False"
| "truthy JNull = False"
| "truthy (JBool b) = b"
| "truthy (JNum n) = (n \<noteq> 0)"
| "truthy (JStr s) = (s \<noteq> [])"
| "truthy (JArr xs) = True"
| "truthy (JObj kvs) = True"

text \<open>Reading a property of \<^verbatim>\<open>null\<close> or \<^verbatim>\<open>undefined\<close> throws a
  TypeError; \<open>nullish\<close> is that test, and \<open>get_prop\<close> is the read where it does not throw.
  The only names the component reads (\<^verbatim>\<open>type\<close>, \<^verbatim>\<open>payload\<close>,
  \<^verbatim>\<open>text\<close>, \<^verbatim>\<open>usage\<close>, \<^verbatim>\<open>message\<close>, \<^verbatim>\<open>userId\<close>,
  \<^verbatim>\<open>error\<close>) are on no prototype, so a primitive or an array gives
  \<^verbatim>\<open>undefined\<close>.\<close>

fun nullish :: "jsval \<Rightarrow> bool" where
  "nullish JUndefined = True"
| "nullish JNull = True"
| "nullish v = False"

fun get_prop :: "jsval \<Rightarrow> string \<Rightarrow> jsval" where
  "get_prop (JObj kvs) k = (case map_of kvs k of None \<Rightarrow> JUndefined | Some v \<Rightarrow> v)"
| "get_prop v k = JUndefined"

subsection \<open>ToString, as a template literal applies it\<close>

definition digit_char :: "nat \<Rightarrow> char" where
  "digit_char d = ''0123456789'' ! (d mod 10)"

fun show_nat :: "nat \<Rightarrow> string" where
  "show_nat n = (if n < 10 then [digit_char n] else show_nat (n div 10) @ [digit_char (n mod 10)])"

declare show_nat.simps [simp del]

definition show_int :: "int \<Rightarrow> string" where
  "show_int i = (if i < 0 then CHR ''-'' # show_nat (nat (- i)) else show_nat (nat i))"

fun join_comma :: "string list \<Rightarrow> string" where
  "join_comma [] = []"
| "join_comma [x] = x"
| "join_comma (x # y # ys) = x @ '','' @ join_comma (y # ys)"

fun js_toString :: "jsval \<Rightarrow> string" where
  "js_toString JUndefined = ''undefined''"
| "js_toString JNull = ''null''"
| "js_toString (JBool b) = (if b then ''true'' else ''false'')"
| "js_toString (JNum n) = show_int n"
| "js_toString (JStr s) = s"
| "js_toString (JArr xs) = join_comma (map (\<lambda>x. if nullish x then [] else js_toString x) xs)"
| "js_toString (JObj kvs) = ''[object Object]''"

subsection \<open>\<^verbatim>\<open>String.prototype.trim\<close>\<close>

text \<open>White space and line terminators among the code units below 256: TAB, LF, VT, FF,
  CR, SP and NBSP.\<close>

definition js_space :: "char \<Rightarrow> bool" where
  "js_space c = (c \<in> set [CHR 0x09, CHR 0x0A, CHR 0x0B, CHR 0x0C, CHR 0x0D, CHR 0x20, CHR 0xA0])"

definition js_trim :: "string \<Rightarrow> string" where
  "js_trim s = rev (dropWhile js_space (rev (dropWhile js_space s)))"

section \<open>The component's state\<close>

datatype ready_state = CONNECTING | OPEN | CLOSING | CLOSED

datatype callback = Onopen | Onmessage | Onerror | Onclose

record websocket =
  readyState :: ready_state
  handlers :: "callback list"

text \<open>A transcript entry: \<^verbatim>\<open>{sender: 'user', text, timestamp}\<close>,
  \<^verbatim>\<open>{sender: 'ai', text, usage, timestamp}\<close> or
  \<^verbatim>\<open>{sender: 'system', text, type, timestamp}\<close>.\<close>

datatype entry =
    UserEntry string nat
  | AiEntry jsval jsval nat
  | SystemEntry jsval string nat

text \<open>
  The refs of \<^verbatim>\<open><script setup>\<close> and the variable \<^verbatim>\<open>socket\<close>, followed by what
  the component does to its surroundings: \<open>wire\<close> lists the frames a transport really
  transmitted, \<open>opened\<close> counts the \<^verbatim>\<open>new WebSocket\<close> calls, \<open>requests\<close> lists the
  URLs given to \<^verbatim>\<open>fetch\<close>, \<open>scrolls\<close> counts the calls of
  \<^verbatim>\<open>scrollToBottom\<close>, and \<open>now\<close> is what \<^verbatim>\<open>Date.now()\<close> returns. Console
  output is not part of the state.
\<close>

record app =
  userInput :: string
  chatMessages :: "entry list"
  doctorSummary :: jsval
  doctorSummaryLoading :: bool
  doctorSummaryError :: string
  socket :: "websocket option"
  userId :: string
  connectionStatus :: string
  isConnected :: bool
  wire :: "jsval list"
  opened :: nat
  requests :: "string list"
  scrolls :: nat
  now :: nat

definition initial :: "string \<Rightarrow> app" where
  "initial rnd =
     \<lparr>userInput = [], chatMessages = [], doctorSummary = JNull, doctorSummaryLoading = False,
      doctorSummaryError = [], socket = None, userId = ''vue_user_'' @ rnd,
      connectionStatus = ''Disconnected'', isConnected = False,
      wire = [], opened = 0, requests = [], scrolls = 0, now = 0\<rparr>"

definition MAX_SUMMARY_RETRIES :: nat where
  "MAX_SUMMARY_RETRIES = 3"

definition SUMMARY_RETRY_DELAY :: nat where
  "SUMMARY_RETRY_DELAY = 3000"

definition scrollToBottom :: "app \<Rightarrow> app" where
  "scrollToBottom s = s\<lparr>scrolls := scrolls s + 1\<rparr>"

definition addSystemMessage :: "app \<Rightarrow> jsval \<Rightarrow> string \<Rightarrow> app" where
  "addSystemMessage s text type =
     scrollToBottom (s\<lparr>chatMessages := chatMessages s @ [SystemEntry text type (now s)]\<rparr>)"

text \<open>\<^verbatim>\<open>socket.send(data)\<close>: a TypeError when \<^verbatim>\<open>socket\<close> is
  \<^verbatim>\<open>null\<close>, an InvalidStateError while the transport is connecting; an open
  transport transmits the frame, a closing or closed one drops it without raising.\<close>

definition ws_send :: "app \<Rightarrow> jsval \<Rightarrow> string + app" where
  "ws_send s frame =
     (case socket s of
        None \<Rightarrow> Inl ''TypeError''
      | Some ws \<Rightarrow>
          (case readyState ws of
             CONNECTING \<Rightarrow> Inl ''InvalidStateError''
           | OPEN \<Rightarrow> Inr (s\<lparr>wire := wire s @ [frame]\<rparr>)
           | CLOSING \<Rightarrow> Inr s
           | CLOSED \<Rightarrow> Inr s))"

section \<open>The revision with the bounded retry\<close>

subsection \<open>Connection manager\<close>

definition connectWebSocket :: "app \<Rightarrow> app" where
  "connectWebSocket s =
     (if (case socket s of
            None \<Rightarrow> False
          | Some ws \<Rightarrow> readyState ws = OPEN \<or> readyState ws = CONNECTING)
      then s
      else s\<lparr>connectionStatus := ''Connecting...'',
             socket := Some \<lparr>readyState = CONNECTING,
                             handlers = [Onopen, Onmessage, Onerror, Onclose]\<rparr>,
             opened := opened s + 1\<rparr>)"

text \<open>An exception that leaves a handler ends the handler; what the handler wrote
  before it stays written.\<close>

definition onopen :: "app \<Rightarrow> app" where
  "onopen s =
     (let s1 = s\<lparr>isConnected := True, connectionStatus := ''Connected''\<rparr>;
          s2 = addSystemMessage s1 (JStr ''Connection established with Care AI.'') ''info''
      in case ws_send s2 (JObj [(''type'', JStr ''init_connection''), (''userId'', JStr (userId s2))]) of
           Inl e \<Rightarrow> s2
         | Inr s3 \<Rightarrow> s3)"

text \<open>The part of \<^verbatim>\<open>fetchDoctorSummary\<close> that runs before its first
  \<^verbatim>\<open>await\<close>: the guard on the identity, the reset on the first attempt, and the
  call of \<^verbatim>\<open>fetch\<close>.\<close>

definition fetchDoctorSummary_begin :: "app \<Rightarrow> nat \<Rightarrow> app" where
  "fetchDoctorSummary_begin s retryAttempt =
     (if userId s = [] then
        (let s1 = s\<lparr>doctorSummaryError := ''User ID is not set. Cannot fetch summary.''\<rparr>
         in addSystemMessage s1 (JStr (doctorSummaryError s1)) ''error'')
      else
        (let s1 = (if retryAttempt = 0
                   then s\<lparr>doctorSummaryLoading := True, doctorSummary := JNull,
                          doctorSummaryError := []\<rparr>
                   else s)
         in s1\<lparr>requests := requests s1 @
                    [''http://localhost:3000/chat/'' @ userId s1 @ ''/doctorsummary'']\<rparr>))"

text \<open>The argument of \<^verbatim>\<open>onmessage\<close> is what \<^verbatim>\<open>JSON.parse(event.data)\<close>
  gives: \<open>None\<close> when it throws. The \<^verbatim>\<open>catch\<close> also receives the TypeError of
  \<^verbatim>\<open>messageData.type\<close> on a frame that parses to \<^verbatim>\<open>null\<close>.\<close>

definition onmessage :: "app \<Rightarrow> jsval option \<Rightarrow> app" where
  "onmessage s parsed =
     (case parsed of
        None \<Rightarrow>
          addSystemMessage s (JStr ''Received an unparseable message from the server.'') ''error''
      | Some messageData \<Rightarrow>
          if nullish messageData then
            addSystemMessage s (JStr ''Received an unparseable message from the server.'') ''error''
          else
            scrollToBottom
              (if get_prop messageData ''type'' = JStr ''ai_response''
                  \<and> truthy (get_prop messageData ''payload'') then
                 s\<lparr>chatMessages := chatMessages s @
                      [AiEntry
                         (if truthy (get_prop (get_prop messageData ''payload'') ''text'')
                          then get_prop (get_prop messageData ''payload'') ''text''
                          else JStr ''AI response did not contain text.'')
                         (get_prop (get_prop messageData ''payload'') ''usage'')
                         (now s)]\<rparr>
               else if get_prop messageData ''type'' = JStr ''system_message'' then
                 addSystemMessage s (get_prop messageData ''text'') ''info''
               else if get_prop messageData ''type'' = JStr ''error'' then
                 addSystemMessage s
                   (JStr (''Server Error: '' @ js_toString (get_prop messageData ''message'')))
                   ''error''
               else if get_prop messageData ''type'' = JStr ''summary_ready''
                  \<and> get_prop messageData ''userId'' = JStr (userId s) then
                 fetchDoctorSummary_begin
                   (addSystemMessage s (JStr ''Doctor summary is now ready to be fetched!'') ''info'')
                   0
               else s))"

definition onerror :: "app \<Rightarrow> app" where
  "onerror s =
     addSystemMessage (s\<lparr>isConnected := False, connectionStatus := ''Connection Error''\<rparr>)
       (JStr ''WebSocket connection error. Please check server and refresh.'') ''error''"

definition onclose :: "app \<Rightarrow> nat \<Rightarrow> string \<Rightarrow> app" where
  "onclose s code reason =
     (let s1 = s\<lparr>isConnected := False,
                  connectionStatus := ''Disconnected (Code: '' @ show_nat code @ '')''\<rparr>;
          closeReason = (if code = 1006
                         then ''Connection lost abnormally. Please check server status.''
                         else if reason \<noteq> [] then reason else ''Connection closed.'');
          s2 = addSystemMessage s1 (JStr closeReason) ''error''
      in s2\<lparr>socket := None\<rparr>)"

definition sendMessage :: "app \<Rightarrow> app" where
  "sendMessage s =
     (if js_trim (userInput s) = [] \<or> socket s = None \<or> \<not> isConnected s
         \<or> map_option readyState (socket s) \<noteq> Some OPEN then
        (let s1 = addSystemMessage s
                    (JStr ''Cannot send message. Not connected or input is empty.'') ''error''
         in if \<not> isConnected s1
               \<or> (socket s1 \<noteq> None \<and> map_option readyState (socket s1) \<noteq> Some OPEN)
            then connectWebSocket s1
            else s1)
      else
        (case ws_send s (JObj [(''type'', JStr ''chat_message''), (''userId'', JStr (userId s)),
                               (''message'', JStr (userInput s))]) of
           Inl e \<Rightarrow> s
         | Inr s1 \<Rightarrow>
             scrollToBottom
               (s1\<lparr>chatMessages := chatMessages s1 @ [UserEntry (userInput s1) (now s1)],
                    userInput := []\<rparr>)))"

text \<open>\<^verbatim>\<open>socket.close()\<close> starts the closing handshake of a transport that is
  connecting or open and does nothing otherwise.\<close>

definition ws_close :: "websocket \<Rightarrow> websocket" where
  "ws_close ws =
     (if readyState ws = OPEN \<or> readyState ws = CONNECTING then ws\<lparr>readyState := CLOSING\<rparr> else ws)"

definition onUnmounted :: "app \<Rightarrow> app" where
  "onUnmounted s =
     (case socket s of
        None \<Rightarrow> s
      | Some ws \<Rightarrow>
          (let ws1 = ws\<lparr>handlers := []\<rparr>;
               ws2 = (if readyState ws1 = OPEN \<or> readyState ws1 = CONNECTING
                      then ws_close ws1 else ws1);
               s1 = s\<lparr>socket := Some ws2\<rparr>
           in s1\<lparr>socket := None\<rparr>))"

subsection \<open>Summary fetcher\<close>

text \<open>What one \<^verbatim>\<open>fetch\<close> comes to: the promise rejects (a network failure, with the
  error's message), or a response arrives with its status, its status text and what
  \<^verbatim>\<open>response.json()\<close> gives: \<open>Inl\<close> the message of the error it rejects with,
  \<open>Inr\<close> the parsed body.\<close>

datatype fetch_outcome =
    Rejected string
  | Response nat string "string + jsval"

definition response_ok :: "nat \<Rightarrow> bool" where
  "response_ok status = (200 \<le> status \<and> status \<le> 299)"

text \<open>The message of the TypeError that V8 raises for reading a property of
  \<^verbatim>\<open>null\<close> or \<^verbatim>\<open>undefined\<close>.\<close>

definition read_error :: "jsval \<Rightarrow> string \<Rightarrow> string" where
  "read_error v k =
     ''Cannot read properties of '' @ js_toString v @ '' (reading '' @ [CHR 0x27] @ k @ [CHR 0x27] @ '')''"

text \<open>The \<^verbatim>\<open>catch\<close> block of \<^verbatim>\<open>fetchDoctorSummary\<close>.\<close>

definition fetch_catch :: "app \<Rightarrow> string \<Rightarrow> app" where
  "fetch_catch s message =
     (let s1 = s\<lparr>doctorSummaryError := message\<rparr>;
          s2 = addSystemMessage s1 (JStr (''Error fetching summary: '' @ message)) ''error''
      in s2\<lparr>doctorSummaryLoading := False\<rparr>)"

text \<open>The rest of \<^verbatim>\<open>fetchDoctorSummary\<close>, from the resolution of
  \<^verbatim>\<open>fetch\<close> on. Nothing is read or written between the two
  \<^verbatim>\<open>await\<close>s, so they are one step. The second component is the
  \<^verbatim>\<open>setTimeout\<close> it sets, when it sets one: the delay and the attempt number the
  delayed call is given.\<close>

definition fetchDoctorSummary_resume :: "app \<Rightarrow> nat \<Rightarrow> fetch_outcome \<Rightarrow> app \<times> (nat \<times> nat) option" where
  "fetchDoctorSummary_resume s retryAttempt outcome =
     (case outcome of
        Rejected message \<Rightarrow> (fetch_catch s message, None)
      | Response status statusText body \<Rightarrow>
          if \<not> response_ok status then
            (let errorData =
                   (case body of
                      Inl e \<Rightarrow>
                        JObj [(''message'',
                               JStr (''HTTP error! Status: '' @ show_nat status @ '' - '' @ statusText))]
                    | Inr v \<Rightarrow> v)
             in if nullish errorData then
                  (fetch_catch s (read_error errorData ''message''), None)
                else if status = 404
                     \<and> get_prop errorData ''message'' = JStr ''Doctor summary not yet available.''
                     \<and> retryAttempt < MAX_SUMMARY_RETRIES then
                  (addSystemMessage s
                     (JStr (''Summary not ready yet. Retrying in ''
                            @ show_nat (SUMMARY_RETRY_DELAY div 1000) @ ''s (Attempt ''
                            @ show_nat (retryAttempt + 1) @ ''/''
                            @ show_nat MAX_SUMMARY_RETRIES @ '')...''))
                     ''info'',
                   Some (SUMMARY_RETRY_DELAY, retryAttempt + 1))
                else
                  (fetch_catch s
                     (if truthy (get_prop errorData ''message'')
                      then js_toString (get_prop errorData ''message'')
                      else ''Failed to fetch summary. Status: '' @ show_nat status),
                   None))
          else
            (case body of
               Inl e \<Rightarrow> (fetch_catch s e, None)
             | Inr fetchedSummary \<Rightarrow>
                 (let s3 =
                        (if truthy fetchedSummary \<and> truthy (get_prop fetchedSummary ''error'') then
                           (let s1 = s\<lparr>doctorSummaryError :=
                                          ''Server-side summary generation issue: ''
                                          @ js_toString (get_prop fetchedSummary ''error'')\<rparr>;
                                s2 = addSystemMessage s1 (JStr (doctorSummaryError s1)) ''error''
                            in s2\<lparr>doctorSummary := JNull\<rparr>)
                         else
                           (let s1 = s\<lparr>doctorSummary := fetchedSummary\<rparr>;
                                s2 = addSystemMessage s1
                                       (JStr ''Doctor summary loaded successfully.'') ''info''
                            in s2\<lparr>doctorSummaryError := []\<rparr>))
                  in (s3\<lparr>doctorSummaryLoading := False\<rparr>, None))))"





section \<open>The revision in \<^verbatim>\<open>src/src/App.vue\<close>\<close>

definition connectWebSocket_App :: "app \<Rightarrow> app" where
  "connectWebSocket_App s =
     s\<lparr>connectionStatus := ''Connecting...'',
       socket := Some \<lparr>readyState = CONNECTING,
                       handlers = [Onopen, Onmessage, Onerror, Onclose]\<rparr>,
       opened := opened s + 1\<rparr>"

definition onopen_App :: "app \<Rightarrow> app" where
  "onopen_App s =
     (let s1 = s\<lparr>isConnected := True, connectionStatus := ''Connected''\<rparr>;
          s2 = addSystemMessage s1 (JStr ''Connection established with Care AI.'') ''info''
      in case ws_send s2 (JObj [(''type'', JStr ''init_connection''), (''userId'', JStr (userId s2))]) of
           Inl e \<Rightarrow> s2
         | Inr s3 \<Rightarrow> s3)"

definition onmessage_App :: "app \<Rightarrow> jsval option \<Rightarrow> app" where
  "onmessage_App s parsed =
     (case parsed of
        None \<Rightarrow>
          addSystemMessage s (JStr ''Received an unparseable message from the server.'') ''error''
      | Some messageData \<Rightarrow>
          if nullish messageData then
            addSystemMessage s (JStr ''Received an unparseable message from the server.'') ''error''
          else
            scrollToBottom
              (if get_prop messageData ''type'' = JStr ''ai_response''
                  \<and> truthy (get_prop messageData ''payload'') then
                 s\<lparr>chatMessages := chatMessages s @
                      [AiEntry
                         (if truthy (get_prop (get_prop messageData ''payload'') ''text'')
                          then get_prop (get_prop messageData ''payload'') ''text''
                          else JStr (''AI didn'' @ [CHR 0x27] @ ''t send text.''))
                         (get_prop (get_prop messageData ''payload'') ''usage'')
                         (now s)]\<rparr>
               else if get_prop messageData ''type'' = JStr ''system_message'' then
                 addSystemMessage s (get_prop messageData ''text'') ''info''
               else if get_prop messageData ''type'' = JStr ''error'' then
                 addSystemMessage s
                   (JStr (''Server Error: '' @ js_toString (get_prop messageData ''message'')))
                   ''error''
               else s))"

definition onerror_App :: "app \<Rightarrow> app" where
  "onerror_App s =
     addSystemMessage (s\<lparr>isConnected := False, connectionStatus := ''Error''\<rparr>)
       (JStr ''WebSocket connection error. Please try refreshing.'') ''error''"

definition onclose_App :: "app \<Rightarrow> nat \<Rightarrow> string \<Rightarrow> app" where
  "onclose_App s code reason =
     (let s1 = s\<lparr>isConnected := False,
                  connectionStatus := ''Disconnected (Code: '' @ show_nat code @ '')''\<rparr>
      in addSystemMessage s1 (JStr (''Connection closed. '' @ reason)) ''error'')"

definition sendMessage_App :: "app \<Rightarrow> app" where
  "sendMessage_App s =
     (if js_trim (userInput s) = [] \<or> socket s = None \<or> \<not> isConnected s then
        addSystemMessage s (JStr ''Cannot send message. Not connected or input is empty.'') ''error''
      else
        (case ws_send s (JObj [(''type'', JStr ''chat_message''), (''userId'', JStr (userId s)),
                               (''message'', JStr (userInput s))]) of
           Inl e \<Rightarrow> s
         | Inr s1 \<Rightarrow>
             scrollToBottom
               (s1\<lparr>chatMessages := chatMessages s1 @ [UserEntry (userInput s1) (now s1)],
                    userInput := []\<rparr>)))"

definition onUnmounted_App :: "app \<Rightarrow> app" where
  "onUnmounted_App s =
     (case socket s of
        None \<Rightarrow> s
      | Some ws \<Rightarrow> s\<lparr>socket := Some (ws_close (ws\<lparr>handlers := []\<rparr>))\<rparr>)"

definition fetchDoctorSummary_App_begin :: "app \<Rightarrow> app" where
  "fetchDoctorSummary_App_begin s =
     (if userId s = [] then s\<lparr>doctorSummaryError := ''User ID is not set.''\<rparr>
      else
        (let s1 = s\<lparr>doctorSummaryLoading := True, doctorSummary := JNull,
                     doctorSummaryError := []\<rparr>
         in s1\<lparr>requests := requests s1 @
                    [''http://localhost:3000/chat/'' @ userId s1 @ ''/doctorsummary'']\<rparr>))"

text \<open>The \<^verbatim>\<open>catch\<close> block followed by the \<^verbatim>\<open>finally\<close> block.\<close>

definition fetch_catch_App :: "app \<Rightarrow> string \<Rightarrow> app" where
  "fetch_catch_App s message =
     (let s1 = s\<lparr>doctorSummaryError := message\<rparr>
      in s1\<lparr>doctorSummaryLoading := False\<rparr>)"

definition fetchDoctorSummary_App_resume :: "app \<Rightarrow> fetch_outcome \<Rightarrow> app" where
  "fetchDoctorSummary_App_resume s outcome =
     (case outcome of
        Rejected message \<Rightarrow> fetch_catch_App s message
      | Response status statusText body \<Rightarrow>
          if \<not> response_ok status then
            (let errorData =
                   (case body of
                      Inl e \<Rightarrow> JObj [(''message'', JStr (''HTTP error! Status: '' @ show_nat status))]
                    | Inr v \<Rightarrow> v)
             in if nullish errorData then
                  fetch_catch_App s (read_error errorData ''message'')
                else
                  fetch_catch_App s
                    (if truthy (get_prop errorData ''message'')
                     then js_toString (get_prop errorData ''message'')
                     else ''Failed to fetch summary with status: '' @ show_nat status))
          else
            (case body of
               Inl e \<Rightarrow> fetch_catch_App s e
             | Inr v \<Rightarrow> (s\<lparr>doctorSummary := v\<rparr>)\<lparr>doctorSummaryLoading := False\<rparr>))"

section \<open>The event loop\<close>

text \<open>
  Everything that makes the component run: mounting and unmounting, the four callbacks
  of the transport, the transport changing its ready state, typing into the input, the
  two buttons, the resolution of a summary request, the retry timer and the clock. One
  event runs one handler to its end.
\<close>

datatype event =
    Mount
  | Unmount
  | WsOpen
  | WsMessage "jsval option"
  | WsError
  | WsClose nat string
  | Transport ready_state
  | Typing string
  | SendClick
  | FetchClick
  | FetchSettled nat fetch_outcome
  | RetryTimer nat
  | Clock nat

fun step :: "app \<Rightarrow> event \<Rightarrow> app" where
  "step s Mount = connectWebSocket s"
| "step s Unmount = onUnmounted s"
| "step s WsOpen = onopen s"
| "step s (WsMessage parsed) = onmessage s parsed"
| "step s WsError = onerror s"
| "step s (WsClose code reason) = onclose s code reason"
| "step s (Transport r) = s\<lparr>socket := map_option (\<lambda>ws. ws\<lparr>readyState := r\<rparr>) (socket s)\<rparr>"
| "step s (Typing v) = s\<lparr>userInput := v\<rparr>"
| "step s SendClick = sendMessage s"
| "step s FetchClick = fetchDoctorSummary_begin s 0"
| "step s (FetchSettled retryAttempt outcome) = fst (fetchDoctorSummary_resume s retryAttempt outcome)"
| "step s (RetryTimer retryAttempt) = fetchDoctorSummary_begin s retryAttempt"
| "step s (Clock t) = s\<lparr>now := t\<rparr>"

fun step_App :: "app \<Rightarrow> event \<Rightarrow> app" where
  "step_App s Mount = connectWebSocket_App s"
| "step_App s Unmount = onUnmounted_App s"
| "step_App s WsOpen = onopen_App s"
| "step_App s (WsMessage parsed) = onmessage_App s parsed"
| "step_App s WsError = onerror_App s"
| "step_App s (WsClose code reason) = onclose_App s code reason"
| "step_App s (Transport r) = s\<lparr>socket := map_option (\<lambda>ws. ws\<lparr>readyState := r\<rparr>) (socket s)\<rparr>"
| "step_App s (Typing v) = s\<lparr>userInput := v\<rparr>"
| "step_App s SendClick = sendMessage_App s"
| "step_App s FetchClick = fetchDoctorSummary_App_begin s"
| "step_App s (FetchSettled retryAttempt outcome) = fetchDoctorSummary_App_resume s outcome"
| "step_App s (RetryTimer retryAttempt) = s"
| "step_App s (Clock t) = s\<lparr>now := t\<rparr>"

text \<open>The transcript as the template shows it: \<^verbatim>\<open>v-for="(msg, index) in chatMessages"\<close>
  renders the entries in the order of the array.\<close>

definition displayed :: "app \<Rightarrow> entry list" where
  "displayed s = chatMessages s"

section \<open>Vocabulary of the specification\<close>


text \<open>A frame whose type tag is one of the four recognized tags.\<close>

definition recognized_tag :: "jsval option \<Rightarrow> bool" where
  "recognized_tag frame =
     (case frame of
        None \<Rightarrow> False
      | Some v \<Rightarrow>
          get_prop v ''type'' \<in> set [JStr ''ai_response'', JStr ''system_message'',
                                     JStr ''error'', JStr ''summary_ready''])"

text \<open>The frames that add an entry to the transcript, for the session identity \<open>uid\<close>:
  one that does not parse or parses to \<^verbatim>\<open>null\<close> (the local error notice), an
  \<^verbatim>\<open>ai_response\<close> with a truthy payload, a \<^verbatim>\<open>system_message\<close>, an
  \<^verbatim>\<open>error\<close>, and a \<^verbatim>\<open>summary_ready\<close> for this identity.
  \<^verbatim>\<open>src/src/App.vue\<close> has no \<^verbatim>\<open>summary_ready\<close>.\<close>

definition adds_entry :: "string \<Rightarrow> jsval option \<Rightarrow> bool" where
  "adds_entry uid frame =
     (case frame of
        None \<Rightarrow> True
      | Some v \<Rightarrow>
          nullish v
          \<or> (get_prop v ''type'' = JStr ''ai_response'' \<and> truthy (get_prop v ''payload''))
          \<or> get_prop v ''type'' = JStr ''system_message''
          \<or> get_prop v ''type'' = JStr ''error''
          \<or> (get_prop v ''type'' = JStr ''summary_ready'' \<and> get_prop v ''userId'' = JStr uid))"

definition adds_entry_App :: "jsval option \<Rightarrow> bool" where
  "adds_entry_App frame =
     (case frame of
        None \<Rightarrow> True
      | Some v \<Rightarrow>
          nullish v
          \<or> (get_prop v ''type'' = JStr ''ai_response'' \<and> truthy (get_prop v ''payload''))
          \<or> get_prop v ''type'' = JStr ''system_message''
          \<or> get_prop v ''type'' = JStr ''error'')"

text \<open>The events that start or continue a summary fetch, for the session identity
  \<open>uid\<close>: the button, the resolution of a request, the retry timer, and a
  \<^verbatim>\<open>summary_ready\<close> frame for this identity.\<close>

fun fetch_event :: "string \<Rightarrow> event \<Rightarrow> bool" where
  "fetch_event uid FetchClick = True"
| "fetch_event uid (FetchSettled a r) = True"
| "fetch_event uid (RetryTimer a) = True"
| "fetch_event uid (WsMessage (Some v)) =
     (get_prop v ''type'' = JStr ''summary_ready'' \<and> get_prop v ''userId'' = JStr uid)"
| "fetch_event uid e = False"




section \<open>Properties\<close>

subsection \<open>What the helpers write\<close>

lemma scrollToBottom_fields [simp]:
  "chatMessages (scrollToBottom s) = chatMessages s"
  "userInput (scrollToBottom s) = userInput s"
  "doctorSummary (scrollToBottom s) = doctorSummary s"
  "doctorSummaryLoading (scrollToBottom s) = doctorSummaryLoading s"
  "doctorSummaryError (scrollToBottom s) = doctorSummaryError s"
  "socket (scrollToBottom s) = socket s"
  "userId (scrollToBottom s) = userId s"
  "connectionStatus (scrollToBottom s) = connectionStatus s"
  "isConnected (scrollToBottom s) = isConnected s"
  "wire (scrollToBottom s) = wire s"
  "opened (scrollToBottom s) = opened s"
  "requests (scrollToBottom s) = requests s"
  "now (scrollToBottom s) = now s"
  by (simp_all add: scrollToBottom_def)

lemma ws_send_fields:
  "ws_send s f = Inr s' \<Longrightarrow> chatMessages s' = chatMessages s \<and> userInput s' = userInput s \<and> now s' = now s
     \<and> userId s' = userId s \<and> isConnected s' = isConnected s \<and> connectionStatus s' = connectionStatus s
     \<and> socket s' = socket s
     \<and> wire s' = (if map_option readyState (socket s) = Some OPEN then wire s @ [f] else wire s)"
  by (auto simp: ws_send_def split: option.splits ready_state.splits)

lemma addSystemMessage_fields [simp]:
  "chatMessages (addSystemMessage s t ty) = chatMessages s @ [SystemEntry t ty (now s)]"
  "userInput (addSystemMessage s t ty) = userInput s"
  "doctorSummary (addSystemMessage s t ty) = doctorSummary s"
  "doctorSummaryLoading (addSystemMessage s t ty) = doctorSummaryLoading s"
  "doctorSummaryError (addSystemMessage s t ty) = doctorSummaryError s"
  "socket (addSystemMessage s t ty) = socket s"
  "userId (addSystemMessage s t ty) = userId s"
  "connectionStatus (addSystemMessage s t ty) = connectionStatus s"
  "isConnected (addSystemMessage s t ty) = isConnected s"
  "wire (addSystemMessage s t ty) = wire s"
  "opened (addSystemMessage s t ty) = opened s"
  "requests (addSystemMessage s t ty) = requests s"
  "now (addSystemMessage s t ty) = now s"
  by (simp_all add: addSystemMessage_def scrollToBottom_def)

lemma begin_fields:
  assumes "userId s \<noteq> []"
  shows "userId (fetchDoctorSummary_begin s a) = userId s"
    and "doctorSummaryLoading (fetchDoctorSummary_begin s a) = (a = 0 \<or> doctorSummaryLoading s)"
    and "doctorSummary (fetchDoctorSummary_begin s a) = (if a = 0 then JNull else doctorSummary s)"
    and "doctorSummaryError (fetchDoctorSummary_begin s a) = (if a = 0 then [] else doctorSummaryError s)"
    and "length (requests (fetchDoctorSummary_begin s a)) = Suc (length (requests s))"
    and "chatMessages (fetchDoctorSummary_begin s a) = chatMessages s"
  using assms by (simp_all add: fetchDoctorSummary_begin_def)

lemma fetch_catch_fields [simp]:
  "doctorSummaryLoading (fetch_catch s m) = False"
  "doctorSummaryError (fetch_catch s m) = m"
  "doctorSummary (fetch_catch s m) = doctorSummary s"
  "requests (fetch_catch s m) = requests s"
  "userId (fetch_catch s m) = userId s"
  "chatMessages (fetch_catch s m) = chatMessages s @ [SystemEntry (JStr (''Error fetching summary: '' @ m)) ''error'' (now s)]"
  by (simp_all add: fetch_catch_def Let_def)

subsection \<open>The bounded retry\<close>










text \<open>Between the steps of a fetch, an event that starts or continues no fetch leaves the
  loading flag, the document and the error message as they are.\<close>

lemma onopen_summary:
  "doctorSummaryLoading (onopen s) = doctorSummaryLoading s
   \<and> doctorSummary (onopen s) = doctorSummary s \<and> doctorSummaryError (onopen s) = doctorSummaryError s"
  by (auto simp: onopen_def Let_def ws_send_def split: option.splits ready_state.splits)

lemma sendMessage_summary:
  "doctorSummaryLoading (sendMessage s) = doctorSummaryLoading s
   \<and> doctorSummary (sendMessage s) = doctorSummary s \<and> doctorSummaryError (sendMessage s) = doctorSummaryError s"
  by (auto simp: sendMessage_def connectWebSocket_def Let_def ws_send_def split: option.splits ready_state.splits)

lemma onmessage_summary:
  "\<not> fetch_event (userId s) (WsMessage f) \<Longrightarrow>
   doctorSummaryLoading (onmessage s f) = doctorSummaryLoading s
   \<and> doctorSummary (onmessage s f) = doctorSummary s \<and> doctorSummaryError (onmessage s f) = doctorSummaryError s"
  by (cases f) (auto simp: onmessage_def)

lemma other_events_keep_summary:
  assumes "\<not> fetch_event (userId s) e"
  shows "doctorSummaryLoading (step s e) = doctorSummaryLoading s
       \<and> doctorSummary (step s e) = doctorSummary s
       \<and> doctorSummaryError (step s e) = doctorSummaryError s"
proof (cases e)
  case (WsMessage f)
  with assms show ?thesis by (simp add: onmessage_summary)
next
  case WsOpen
  then show ?thesis by (simp add: onopen_summary)
next
  case SendClick
  then show ?thesis by (simp add: sendMessage_summary)
qed (insert assms, auto simp: connectWebSocket_def onUnmounted_def onerror_def onclose_def Let_def
      split: option.splits)



subsection \<open>The transcript only grows\<close>

lemma connectWebSocket_chat [simp]: "chatMessages (connectWebSocket s) = chatMessages s"
  by (simp add: connectWebSocket_def)

lemma begin_chat: "prefix (chatMessages s) (chatMessages (fetchDoctorSummary_begin s a))"
  by (simp add: fetchDoctorSummary_begin_def Let_def)

lemma resume_chat: "prefix (chatMessages s) (chatMessages (fst (fetchDoctorSummary_resume s a r)))"
  by (auto simp: fetchDoctorSummary_resume_def Let_def split: fetch_outcome.splits sum.splits)

lemma onmessage_chat: "prefix (chatMessages s) (chatMessages (onmessage s f))"
  using begin_chat [of "addSystemMessage s (JStr ''Doctor summary is now ready to be fetched!'') ''info''" 0]
  by (auto simp: onmessage_def split: option.splits dest: append_prefixD)

lemma sendMessage_chat: "prefix (chatMessages s) (chatMessages (sendMessage s))"
  by (auto simp: sendMessage_def Let_def split: sum.splits dest!: ws_send_fields)

lemma onopen_chat: "prefix (chatMessages s) (chatMessages (onopen s))"
  by (auto simp: onopen_def Let_def split: sum.splits dest!: ws_send_fields)

lemma step_prefix: "prefix (chatMessages s) (chatMessages (step s e))"
proof (cases e)
  case (WsMessage f) then show ?thesis by (simp add: onmessage_chat)
next
  case SendClick then show ?thesis by (simp add: sendMessage_chat)
next
  case WsOpen then show ?thesis by (simp add: onopen_chat)
next
  case FetchClick then show ?thesis by (simp add: begin_chat)
next
  case (RetryTimer a) then show ?thesis by (simp add: begin_chat)
next
  case (FetchSettled a r) then show ?thesis by (simp add: resume_chat)
qed (auto simp: onUnmounted_def onerror_def onclose_def Let_def split: option.splits)

lemma onmessage_App_chat: "prefix (chatMessages s) (chatMessages (onmessage_App s f))"
  by (auto simp: onmessage_App_def split: option.splits)

lemma sendMessage_App_chat: "prefix (chatMessages s) (chatMessages (sendMessage_App s))"
  by (auto simp: sendMessage_App_def Let_def split: sum.splits dest!: ws_send_fields)

lemma onopen_App_chat: "prefix (chatMessages s) (chatMessages (onopen_App s))"
  by (auto simp: onopen_App_def Let_def split: sum.splits dest!: ws_send_fields)

lemma resume_App_chat: "chatMessages (fetchDoctorSummary_App_resume s r) = chatMessages s"
  by (auto simp: fetchDoctorSummary_App_resume_def fetch_catch_App_def Let_def split: fetch_outcome.splits sum.splits)

lemma step_App_prefix: "prefix (chatMessages s) (chatMessages (step_App s e))"
proof (cases e)
  case (WsMessage f) then show ?thesis by (simp add: onmessage_App_chat)
next
  case SendClick then show ?thesis by (simp add: sendMessage_App_chat)
next
  case WsOpen then show ?thesis by (simp add: onopen_App_chat)
next
  case (FetchSettled a r) then show ?thesis by (simp add: resume_App_chat)
qed (auto simp: onUnmounted_App_def onerror_App_def onclose_App_def connectWebSocket_App_def
      fetchDoctorSummary_App_begin_def Let_def split: option.splits)

lemma run_prefix: "prefix (chatMessages s) (chatMessages (foldl step s es))"
proof (induction es arbitrary: s)
  case Nil
  show ?case by simp
next
  case (Cons e es)
  have "prefix (chatMessages s) (chatMessages (step s e))" by (rule step_prefix)
  also have "prefix \<dots> (chatMessages (foldl step (step s e) es))" by (rule Cons.IH)
  finally show ?case by simp
qed

lemma run_App_prefix: "prefix (chatMessages s) (chatMessages (foldl step_App s es))"
proof (induction es arbitrary: s)
  case Nil
  show ?case by simp
next
  case (Cons e es)
  have "prefix (chatMessages s) (chatMessages (step_App s e))" by (rule step_App_prefix)
  also have "prefix \<dots> (chatMessages (foldl step_App (step_App s e) es))" by (rule Cons.IH)
  finally show ?case by simp
qed

text \<open>
  C9. The transcript is append-only, in both revisions: \<^verbatim>\<open>addSystemMessage\<close> pushes one
  entry at the end, and after any sequence of events (inbound frames, connection
  callbacks, sends, summary fetches) the transcript that was there before is still the
  beginning of the transcript, entry for entry and in the same order; the template shows
  the entries in the order of the array.
\<close>

theorem transcript_append_only:
  "chatMessages (addSystemMessage s t ty) = chatMessages s @ [SystemEntry t ty (now s)]
   \<and> prefix (displayed s) (displayed (foldl step s es))
   \<and> prefix (displayed s) (displayed (foldl step_App s es))
   \<and> take (length (chatMessages s)) (displayed (foldl step s es)) = chatMessages s
   \<and> take (length (chatMessages s)) (displayed (foldl step_App s es)) = chatMessages s"
  using run_prefix [of s es] run_App_prefix [of s es]
  by (auto simp: displayed_def prefix_def)

theorem transcript_append_only_witness:
  "prefix (displayed (initial ''a1b2c3''))
     (displayed (foldl step (initial ''a1b2c3'') [Mount, Transport OPEN, WsOpen, Typing ''hello'', SendClick]))
   \<and> take (length (chatMessages (onopen (initial ''a1b2c3''))))
        (displayed (foldl step_App (onopen (initial ''a1b2c3'')) [WsMessage None, WsError]))
      = chatMessages (onopen (initial ''a1b2c3''))"
  using transcript_append_only [of "initial ''a1b2c3''" _ _ "[Mount, Transport OPEN, WsOpen, Typing ''hello'', SendClick]"]
    transcript_append_only [of "onopen (initial ''a1b2c3'')" _ _ "[WsMessage None, WsError]"]
  by blast

subsection \<open>Frames that do not parse\<close>

text \<open>
  C7. A frame whose payload does not parse (\<^verbatim>\<open>JSON.parse\<close> throws) makes the message
  handler append exactly one system notice of severity \<^verbatim>\<open>error\<close>, and the handler
  leaves the connection status, the connected flag and the transport as they were. This
  holds in both revisions.
\<close>

theorem unparseable_frame_notice:
  "chatMessages (onmessage s None) =
     chatMessages s @ [SystemEntry (JStr ''Received an unparseable message from the server.'') ''error'' (now s)]
   \<and> connectionStatus (onmessage s None) = connectionStatus s
   \<and> isConnected (onmessage s None) = isConnected s
   \<and> socket (onmessage s None) = socket s
   \<and> chatMessages (onmessage_App s None) =
     chatMessages s @ [SystemEntry (JStr ''Received an unparseable message from the server.'') ''error'' (now s)]
   \<and> connectionStatus (onmessage_App s None) = connectionStatus s
   \<and> isConnected (onmessage_App s None) = isConnected s
   \<and> socket (onmessage_App s None) = socket s"
  by (simp add: onmessage_def onmessage_App_def)

theorem unparseable_frame_notice_witness:
  "chatMessages (onmessage (initial ''a1b2c3'') None) =
     [SystemEntry (JStr ''Received an unparseable message from the server.'') ''error'' 0]
   \<and> connectionStatus (onmessage (initial ''a1b2c3'') None) = ''Disconnected''
   \<and> isConnected (onmessage_App (initial ''a1b2c3'') None) = False"
  using unparseable_frame_notice [of "initial ''a1b2c3''"]
  by (simp add: initial_def)

subsection \<open>Closing with code 1006\<close>

lemma show_nat_1006: "show_nat 1006 = ''1006''"
  by (simp add: show_nat.simps digit_char_def)

text \<open>
  C6, as the code has it. A close event with code 1006 sets the connection status to
  \<^verbatim>\<open>Disconnected (Code: 1006)\<close> in both revisions. In the revision with the retry the
  notice is the abnormal-closure message, whatever reason the remote side supplied; in
  \<^verbatim>\<open>src/src/App.vue\<close> the notice is \<^verbatim>\<open>Connection closed. \<close> followed by the
  remote reason, as for every other code.
\<close>

theorem abnormal_closure_notice:
  "connectionStatus (onclose s 1006 reason) = ''Disconnected (Code: 1006)''
   \<and> chatMessages (onclose s 1006 reason) =
       chatMessages s @ [SystemEntry (JStr ''Connection lost abnormally. Please check server status.'') ''error'' (now s)]
   \<and> connectionStatus (onclose_App s 1006 reason) = ''Disconnected (Code: 1006)''
   \<and> chatMessages (onclose_App s 1006 reason) =
       chatMessages s @ [SystemEntry (JStr (''Connection closed. '' @ reason)) ''error'' (now s)]"
  by (simp add: onclose_def onclose_App_def Let_def show_nat_1006)

theorem abnormal_closure_notice_witness:
  "connectionStatus (onclose (initial ''a1b2c3'') 1006 ''server restart'') = ''Disconnected (Code: 1006)''
   \<and> chatMessages (onclose (initial ''a1b2c3'') 1006 ''server restart'') =
       [SystemEntry (JStr ''Connection lost abnormally. Please check server status.'') ''error'' 0]"
  using abnormal_closure_notice [of "initial ''a1b2c3''" "''server restart''"]
  by (simp add: initial_def)

text \<open>
  The claim as stated fails on \<^verbatim>\<open>src/src/App.vue\<close>: there the notice of a 1006
  closure carries the remote reason.
\<close>

theorem abnormal_closure_App_counterexample:
  "connectionStatus (onclose_App (initial ''a1b2c3'') 1006 ''server restart'') = ''Disconnected (Code: 1006)''
   \<and> chatMessages (onclose_App (initial ''a1b2c3'') 1006 ''server restart'') =
       [SystemEntry (JStr ''Connection closed. server restart'') ''error'' 0]
   \<and> chatMessages (onclose_App (initial ''a1b2c3'') 1006 ''server restart'') \<noteq>
       [SystemEntry (JStr ''Connection lost abnormally. Please check server status.'') ''error'' 0]"
  by (simp add: onclose_App_def Let_def show_nat_1006 initial_def)

subsection \<open>The guard of connect\<close>

text \<open>
  C8, as the code has it. In the revision with the retry, \<^verbatim>\<open>connectWebSocket\<close> called
  while the transport is open or connecting changes nothing (so calling it twice is the
  same as calling it once); otherwise it sets the status to \<^verbatim>\<open>Connecting...\<close> and
  opens one transport with the four callbacks. In \<^verbatim>\<open>src/src/App.vue\<close> there is no
  guard: every call sets the status and opens a transport.
\<close>

theorem connect_guard:
  "(map_option readyState (socket s) = Some OPEN \<or> map_option readyState (socket s) = Some CONNECTING
      \<longrightarrow> connectWebSocket s = s)
   \<and> (map_option readyState (socket s) \<noteq> Some OPEN \<and> map_option readyState (socket s) \<noteq> Some CONNECTING
      \<longrightarrow> connectWebSocket s =
          s\<lparr>connectionStatus := ''Connecting...'',
            socket := Some \<lparr>readyState = CONNECTING, handlers = [Onopen, Onmessage, Onerror, Onclose]\<rparr>,
            opened := opened s + 1\<rparr>)
   \<and> connectWebSocket (connectWebSocket s) = connectWebSocket s
   \<and> connectWebSocket_App s =
          s\<lparr>connectionStatus := ''Connecting...'',
            socket := Some \<lparr>readyState = CONNECTING, handlers = [Onopen, Onmessage, Onerror, Onclose]\<rparr>,
            opened := opened s + 1\<rparr>"
  by (auto simp: connectWebSocket_def connectWebSocket_App_def split: option.splits)


text \<open>
  The claim as stated fails on \<^verbatim>\<open>src/src/App.vue\<close>: connecting while connected resets
  the status and opens a second transport.
\<close>

theorem connect_guard_App_counterexample:
  "connectionStatus (foldl step_App (initial ''a1b2c3'') [Mount, Transport OPEN, WsOpen]) = ''Connected''
   \<and> map_option readyState (socket (foldl step_App (initial ''a1b2c3'') [Mount, Transport OPEN, WsOpen])) = Some OPEN
   \<and> opened (foldl step_App (initial ''a1b2c3'') [Mount, Transport OPEN, WsOpen]) = 1
   \<and> connectionStatus (connectWebSocket_App (foldl step_App (initial ''a1b2c3'') [Mount, Transport OPEN, WsOpen])) = ''Connecting...''
   \<and> opened (connectWebSocket_App (foldl step_App (initial ''a1b2c3'') [Mount, Transport OPEN, WsOpen])) = 2"
  by (simp add: connectWebSocket_App_def onopen_App_def ws_send_def initial_def Let_def addSystemMessage_def scrollToBottom_def)

theorem connect_guard_witness:
  "connectWebSocket (foldl step (initial ''a1b2c3'') [Mount, Transport OPEN, WsOpen])
     = foldl step (initial ''a1b2c3'') [Mount, Transport OPEN, WsOpen]
   \<and> opened (connectWebSocket (initial ''a1b2c3'')) = 1
   \<and> connectionStatus (connectWebSocket (initial ''a1b2c3'')) = ''Connecting...''"
  using connect_guard [of "foldl step (initial ''a1b2c3'') [Mount, Transport OPEN, WsOpen]"]
    connect_guard [of "initial ''a1b2c3''"]
  by (simp add: connectWebSocket_def onopen_def ws_send_def initial_def Let_def addSystemMessage_def scrollToBottom_def)

subsection \<open>A body that reports an error\<close>




subsection \<open>Sending\<close>













subsection \<open>The input buffer\<close>

lemma begin_userInput [simp]: "userInput (fetchDoctorSummary_begin s a) = userInput s"
  by (simp add: fetchDoctorSummary_begin_def Let_def)

lemma fetch_catch_userInput [simp]: "userInput (fetch_catch s m) = userInput s"
  by (simp add: fetch_catch_def Let_def)

lemma resume_userInput [simp]: "userInput (fst (fetchDoctorSummary_resume s a r)) = userInput s"
  by (auto simp: fetchDoctorSummary_resume_def Let_def split: fetch_outcome.splits sum.splits)

lemma onmessage_userInput [simp]: "userInput (onmessage s f) = userInput s"
  by (auto simp: onmessage_def split: option.splits)

lemma onopen_userInput [simp]: "userInput (onopen s) = userInput s"
  by (auto simp: onopen_def Let_def split: sum.splits dest!: ws_send_fields)


lemma onmessage_App_userInput [simp]: "userInput (onmessage_App s f) = userInput s"
  by (auto simp: onmessage_App_def split: option.splits)

lemma onopen_App_userInput [simp]: "userInput (onopen_App s) = userInput s"
  by (auto simp: onopen_App_def Let_def split: sum.splits dest!: ws_send_fields)

lemma resume_App_userInput [simp]: "userInput (fetchDoctorSummary_App_resume s r) = userInput s"
  by (auto simp: fetchDoctorSummary_App_resume_def fetch_catch_App_def Let_def split: fetch_outcome.splits sum.splits)





subsection \<open>How the transcript grows with the frames\<close>

lemma onmessage_userId [simp]: "userId (onmessage s f) = userId s"
  by (auto simp: onmessage_def fetchDoctorSummary_begin_def Let_def split: option.splits)

lemma onmessage_App_userId [simp]: "userId (onmessage_App s f) = userId s"
  by (auto simp: onmessage_App_def split: option.splits)

lemma onmessage_adds:
  "userId s \<noteq> [] \<Longrightarrow>
   chatMessages (onmessage s f) = chatMessages s \<and> \<not> adds_entry (userId s) f
   \<or> (\<exists>x. chatMessages (onmessage s f) = chatMessages s @ [x]) \<and> adds_entry (userId s) f"
  by (cases f) (auto simp: onmessage_def adds_entry_def begin_fields)

lemma onmessage_App_adds:
  "chatMessages (onmessage_App s f) = chatMessages s \<and> \<not> adds_entry_App f
   \<or> (\<exists>x. chatMessages (onmessage_App s f) = chatMessages s @ [x]) \<and> adds_entry_App f"
  by (cases f) (auto simp: onmessage_App_def adds_entry_App_def)

lemma deliver_length:
  "userId s \<noteq> [] \<Longrightarrow>
   length (chatMessages (foldl onmessage s fs)) = length (chatMessages s) + length (filter (adds_entry (userId s)) fs)"
proof (induction fs arbitrary: s)
  case Nil
  show ?case by simp
next
  case (Cons f fs)
  from Cons.prems have u: "userId (onmessage s f) \<noteq> []" by simp
  from onmessage_adds [OF Cons.prems, of f]
  have "length (chatMessages (onmessage s f)) = length (chatMessages s) + (if adds_entry (userId s) f then 1 else 0)"
    by auto
  with Cons.IH [OF u] show ?case by simp
qed

lemma deliver_App_length:
  "length (chatMessages (foldl onmessage_App s fs)) = length (chatMessages s) + length (filter adds_entry_App fs)"
proof (induction fs arbitrary: s)
  case Nil
  show ?case by simp
next
  case (Cons f fs)
  from onmessage_App_adds [of s f]
  have "length (chatMessages (onmessage_App s f)) = length (chatMessages s) + (if adds_entry_App f then 1 else 0)"
    by auto
  with Cons.IH [of "onmessage_App s f"] show ?case by simp
qed

lemma deliver_silent:
  "userId s \<noteq> [] \<Longrightarrow> \<forall>f \<in> set fs. \<not> adds_entry (userId s) f \<Longrightarrow>
   chatMessages (foldl onmessage s fs) = chatMessages s"
proof (induction fs arbitrary: s)
  case Nil
  show ?case by simp
next
  case (Cons f fs)
  from Cons.prems have u: "userId (onmessage s f) \<noteq> []" by simp
  from onmessage_adds [OF Cons.prems(1), of f] Cons.prems(2)
  have "chatMessages (onmessage s f) = chatMessages s" by auto
  with Cons.IH [OF u] Cons.prems(2) show ?case by simp
qed

lemma deliver_App_silent:
  "\<forall>f \<in> set fs. \<not> adds_entry_App f \<Longrightarrow> chatMessages (foldl onmessage_App s fs) = chatMessages s"
proof (induction fs arbitrary: s)
  case Nil
  show ?case by simp
next
  case (Cons f fs)
  from onmessage_App_adds [of s f] Cons.prems
  have "chatMessages (onmessage_App s f) = chatMessages s" by auto
  with Cons.IH [of "onmessage_App s f"] Cons.prems show ?case by simp
qed

lemma unrecognized_silent:
  "f = Some v \<Longrightarrow> \<not> nullish v \<Longrightarrow> \<not> recognized_tag f \<Longrightarrow> \<not> adds_entry uid f \<and> \<not> adds_entry_App f"
  by (auto simp: recognized_tag_def adds_entry_def adds_entry_App_def)

text \<open>
  C2, as the code has it. For every sequence of inbound frames, the transcript grows by
  exactly one entry for each frame that does not parse or parses to \<^verbatim>\<open>null\<close> (the
  local error notice), each \<^verbatim>\<open>ai_response\<close> with a truthy payload, each
  \<^verbatim>\<open>system_message\<close>, each \<^verbatim>\<open>error\<close>, and, in the revision with the retry,
  each \<^verbatim>\<open>summary_ready\<close> whose \<^verbatim>\<open>userId\<close> is the session identity; every
  other frame adds nothing, in particular every frame with an unrecognized type tag.
  (The notices of the summary fetch that a \<^verbatim>\<open>summary_ready\<close> starts come later, with
  the responses.)
\<close>

theorem transcript_growth:
  assumes "userId s \<noteq> []"
  shows "length (chatMessages (foldl onmessage s fs))
           = length (chatMessages s) + length (filter (adds_entry (userId s)) fs)
       \<and> length (chatMessages (foldl onmessage_App s fs))
           = length (chatMessages s) + length (filter adds_entry_App fs)
       \<and> ((\<forall>f \<in> set fs. \<exists>v. f = Some v \<and> \<not> nullish v \<and> \<not> recognized_tag f) \<longrightarrow>
            chatMessages (foldl onmessage s fs) = chatMessages s
            \<and> chatMessages (foldl onmessage_App s fs) = chatMessages s)"
proof -
  have "chatMessages (foldl onmessage s fs) = chatMessages s
            \<and> chatMessages (foldl onmessage_App s fs) = chatMessages s"
    if "\<forall>f \<in> set fs. \<exists>v. f = Some v \<and> \<not> nullish v \<and> \<not> recognized_tag f"
  proof -
    from that have "\<forall>f \<in> set fs. \<not> adds_entry (userId s) f" "\<forall>f \<in> set fs. \<not> adds_entry_App f"
      using unrecognized_silent by blast+
    then show ?thesis using deliver_silent [OF assms] deliver_App_silent by blast
  qed
  then show ?thesis using deliver_length [OF assms] deliver_App_length by blast
qed

text \<open>
  The claim as stated fails in both revisions: an \<^verbatim>\<open>ai_response\<close> without a payload
  has a recognized tag and adds nothing.
\<close>

theorem transcript_growth_counterexample:
  "recognized_tag (Some (JObj [(''type'', JStr ''ai_response'')]))
   \<and> chatMessages (foldl onmessage (initial ''a1b2c3'') [Some (JObj [(''type'', JStr ''ai_response'')])]) = []
   \<and> length (chatMessages (foldl onmessage (initial ''a1b2c3'') [Some (JObj [(''type'', JStr ''ai_response'')])]))
       \<noteq> length (chatMessages (initial ''a1b2c3''))
           + length (filter recognized_tag [Some (JObj [(''type'', JStr ''ai_response'')])])
   \<and> chatMessages (foldl onmessage_App (initial ''a1b2c3'') [Some (JObj [(''type'', JStr ''ai_response'')])]) = []"
  by (simp add: recognized_tag_def onmessage_def onmessage_App_def initial_def scrollToBottom_def)

theorem transcript_growth_witness:
  "userId (initial ''a1b2c3'') \<noteq> []
   \<and> length (chatMessages (foldl onmessage (initial ''a1b2c3'')
        [Some (JObj [(''type'', JStr ''ai_response''), (''payload'', JObj [(''text'', JStr ''hi'')])]),
         Some (JObj [(''type'', JStr ''typing'')]),
         None,
         Some (JObj [(''type'', JStr ''summary_ready''), (''userId'', JStr ''vue_user_ffffff'')])])) = 2
   \<and> chatMessages (foldl onmessage (initial ''a1b2c3'') [Some (JObj [(''type'', JStr ''typing'')])]) = []"
proof -
  have 1: "userId (initial ''a1b2c3'') \<noteq> []" by (simp add: initial_def)
  have 2: "chatMessages (initial ''a1b2c3'') = []" "userId (initial ''a1b2c3'') = ''vue_user_a1b2c3''"
    by (simp_all add: initial_def)
  have 3: "\<forall>f \<in> set [Some (JObj [(''type'', JStr ''typing'')])]. \<exists>v. f = Some v \<and> \<not> nullish v \<and> \<not> recognized_tag f"
    by (simp add: recognized_tag_def)
  from transcript_growth [OF 1, of "[Some (JObj [(''type'', JStr ''ai_response''), (''payload'', JObj [(''text'', JStr ''hi'')])]),
         Some (JObj [(''type'', JStr ''typing'')]),
         None,
         Some (JObj [(''type'', JStr ''summary_ready''), (''userId'', JStr ''vue_user_ffffff'')])]"]
    transcript_growth [OF 1, of "[Some (JObj [(''type'', JStr ''typing'')])]"] 3 1
  show ?thesis unfolding 2 by (simp add: adds_entry_def)
qed

subsection \<open>The states of a summary request\<close>









end
